theory Spec2Isabelle
  imports Complex_Main "HOL-Library.AList"
begin

section \<open>The JavaScript values and built-ins the history service relies on\<close>

text \<open>
  A JavaScript number is modelled as the real it denotes; a real that is not itself a
  double stands for the double nearest to it, as a number read from JSON does.
  Timestamps are integers far below \<open>2^53\<close>, where the operations on doubles are exact,
  so the arithmetic on timestamps is written with the exact operations. The arithmetic
  on distances and tank dimensions is double arithmetic, with the rounding of every
  operation written out (\<open>fsub\<close>, \<open>fmul\<close>, \<open>fdiv\<close> below). \<open>NaN\<close> and the infinities
  do not occur in readings that come out of the store (JSON has neither).
  A property that is \<open>undefined\<close> or \<open>null\<close> is an absent key or \<open>None\<close>.
\<close>

datatype jsval = JNum real | JStr string | JBool bool

type_synonym obj = "string \<rightharpoonup> jsval"

text \<open>Truthiness, and the operator \<open>a || b\<close>.\<close>

fun truthy :: "jsval option \<Rightarrow> bool" where
  "truthy None = False"
| "truthy (Some (JNum x)) = (x \<noteq> 0)"
| "truthy (Some (JStr s)) = (s \<noteq> [])"
| "truthy (Some (JBool b)) = b"

definition js_or :: "jsval option \<Rightarrow> jsval option \<Rightarrow> jsval option" where
  "js_or a b = (if truthy a then a else b)"

text \<open>\<open>x || d\<close> where \<open>x\<close> is a number or absent and \<open>d\<close> is a number.\<close>

definition num_or :: "real option \<Rightarrow> real \<Rightarrow> real" where
  "num_or x d = (case x of None \<Rightarrow> d | Some v \<Rightarrow> if v \<noteq> 0 then v else d)"

text \<open>
  Number to string. For an integer below \<open>10^21\<close> JavaScript prints the decimal digits;
  for a number written as a short decimal fraction (at most 15 significant digits,
  magnitude at least \<open>10^-6\<close>) it prints that fraction back. The exponent notation of
  larger and smaller magnitudes is outside this model.
\<close>

definition digit_char :: "nat \<Rightarrow> char" where
  "digit_char d = ''0123456789'' ! d"

function digits_of_nat :: "nat \<Rightarrow> string" where
  "digits_of_nat n =
     (if n < 10 then [digit_char n] else digits_of_nat (n div 10) @ [digit_char (n mod 10)])"
  by pat_completeness auto
termination
  by (relation "measure id") auto

declare digits_of_nat.simps [simp del]

fun frac_digits :: "nat \<Rightarrow> real \<Rightarrow> string" where
  "frac_digits k f =
     (if k = 0 \<or> f = 0 then []
      else let d = nat \<lfloor>f * 10\<rfloor>
           in digit_char d # frac_digits (k - 1) (f * 10 - of_nat d))"

declare frac_digits.simps [simp del]

definition Number_toString :: "real \<Rightarrow> string" where
  "Number_toString x =
     (let a = \<bar>x\<bar>; i = nat \<lfloor>a\<rfloor>; f = a - of_nat i
      in (if x < 0 then ''-'' else '''') @ digits_of_nat i
         @ (if f = 0 then '''' else ''.'' @ frac_digits 20 f))"

text \<open>\<open>String(v)\<close> and template-literal interpolation.\<close>

fun js_String :: "jsval option \<Rightarrow> string" where
  "js_String None = ''undefined''"
| "js_String (Some (JNum x)) = Number_toString x"
| "js_String (Some (JStr s)) = s"
| "js_String (Some (JBool b)) = (if b then ''true'' else ''false'')"

text \<open>\<open>s.replace(/\./g, '_')\<close> and \<open>s.replace(/"/g, '""')\<close>.\<close>

definition replace_dots :: "string \<Rightarrow> string" where
  "replace_dots s = map (\<lambda>c. if c = CHR ''.'' then CHR ''_'' else c) s"

definition double_quotes :: "string \<Rightarrow> string" where
  "double_quotes s = concat (map (\<lambda>c. if c = CHR 0x22 then [CHR 0x22, CHR 0x22] else [c]) s)"

text \<open>
  \<open>x.toFixed(d)\<close>: the nearest decimal with \<open>d\<close> fraction digits, ties to the larger
  magnitude, sign first.
\<close>

function pad_left :: "nat \<Rightarrow> string \<Rightarrow> string" where
  "pad_left w s = (if length s < w then pad_left w (CHR ''0'' # s) else s)"
  by pat_completeness auto
termination
  by (relation "measure (\<lambda>(w, s). w - length s)") auto

declare pad_left.simps [simp del]

definition toFixed :: "real \<Rightarrow> nat \<Rightarrow> string" where
  "toFixed x d =
     (let n = nat \<lfloor>\<bar>x\<bar> * 10 ^ d + 1 / 2\<rfloor>;
          ds = pad_left (d + 1) (digits_of_nat n);
          k = length ds - d
      in (if x < 0 then ''-'' else '''') @ take k ds @ (if d = 0 then '''' else ''.'' @ drop k ds))"

text \<open>
  Double arithmetic. \<open>fl x\<close> is the double nearest to \<open>x\<close>, ties to the even
  mantissa: the binary exponent \<open>e\<close> of \<open>x\<close> is found, the spacing of the doubles
  there is \<open>2^(e - 52)\<close>, and \<open>x\<close> is rounded to a multiple of it. Each operation
  rounds its operands (a number written in decimal is read as the nearest double) and
  then its exact result. Magnitudes are taken to be in the range of the normal doubles:
  overflow to infinity and the subnormal numbers are outside this model.
\<close>

definition pow2 :: "int \<Rightarrow> real" where
  "pow2 e = (if e \<ge> 0 then 2 ^ nat e else 1 / 2 ^ nat (- e))"

fun binExponent :: "nat \<Rightarrow> real \<Rightarrow> int" where
  "binExponent k x =
     (if k = 0 then 0
      else if x \<ge> 2 then binExponent (k - 1) (x / 2) + 1
      else if x < 1 then binExponent (k - 1) (x * 2) - 1
      else 0)"

declare binExponent.simps [simp del]

definition roundHalfEven :: "real \<Rightarrow> int" where
  "roundHalfEven q =
     (let f = \<lfloor>q\<rfloor>; r = q - of_int f
      in if r < 1 / 2 then f else if r > 1 / 2 then f + 1 else if even f then f else f + 1)"

definition fl :: "real \<Rightarrow> real" where
  "fl x =
     (if x = 0 then 0
      else let e = binExponent 1100 \<bar>x\<bar>; ulp = pow2 (e - 52)
           in of_int (roundHalfEven (x / ulp)) * ulp)"

definition fsub :: "real \<Rightarrow> real \<Rightarrow> real" where
  "fsub a b = fl (fl a - fl b)"

definition fmul :: "real \<Rightarrow> real \<Rightarrow> real" where
  "fmul a b = fl (fl a * fl b)"

definition fdiv :: "real \<Rightarrow> real \<Rightarrow> real" where
  "fdiv a b = fl (fl a / fl b)"

text \<open>
  \<open>Math.pow(x, 2)\<close>, taken as the rounded product of \<open>x\<close> with itself, and
  \<open>Math.PI\<close>, the double nearest to \<open>\<pi>\<close>.
\<close>

definition Math_pow_2 :: "real \<Rightarrow> real" where
  "Math_pow_2 x = fmul x x"

definition Math_PI :: real where
  "Math_PI = 884279719003555 / 281474976710656"

text \<open>
  \<open>Math.round\<close> gives the integer nearest to the double it is applied to, halves
  towards plus infinity; nothing is rounded on the way.
\<close>

definition Math_round :: "real \<Rightarrow> real" where
  "Math_round x = of_int \<lfloor>x + 1 / 2\<rfloor>"

text \<open>
  \<open>new Date(t).toISOString()\<close>. The time value is clipped: beyond \<open>8.64e15\<close>
  milliseconds the date is invalid and \<open>toISOString\<close> throws a \<open>RangeError\<close>
  (\<open>None\<close>); otherwise the fraction of a millisecond is dropped and the UTC calendar
  fields are printed.
\<close>

definition TimeClip :: "real \<Rightarrow> int option" where
  "TimeClip t =
     (if \<bar>t\<bar> > 8640000000000000 then None
      else Some (if t \<ge> 0 then \<lfloor>t\<rfloor> else - \<lfloor>- t\<rfloor>))"

definition civil_from_days :: "int \<Rightarrow> int \<times> int \<times> int" where
  "civil_from_days days =
     (let z = days + 719468;
          era = z div 146097;
          doe = z - era * 146097;
          yoe = (doe - doe div 1460 + doe div 36524 - doe div 146096) div 365;
          doy = doe - (365 * yoe + yoe div 4 - yoe div 100);
          mp = (5 * doy + 2) div 153;
          d = doy - (153 * mp + 2) div 5 + 1;
          m = (if mp < 10 then mp + 3 else mp - 9);
          y = yoe + era * 400 + (if m \<le> 2 then 1 else 0)
      in (y, m, d))"

definition pad_int :: "nat \<Rightarrow> int \<Rightarrow> string" where
  "pad_int w n = pad_left w (digits_of_nat (nat n))"

definition iso_year :: "int \<Rightarrow> string" where
  "iso_year y =
     (if 0 \<le> y \<and> y \<le> 9999 then pad_int 4 y
      else (if y < 0 then ''-'' else ''+'') @ pad_int 6 \<bar>y\<bar>)"

definition Date_toISOString :: "real \<Rightarrow> string option" where
  "Date_toISOString t =
     (case TimeClip t of
        None \<Rightarrow> None
      | Some tv \<Rightarrow>
          (let days = tv div 86400000;
               msInDay = tv mod 86400000;
               (y, m, d) = civil_from_days days
           in Some (iso_year y @ ''-'' @ pad_int 2 m @ ''-'' @ pad_int 2 d @ ''T''
                    @ pad_int 2 (msInDay div 3600000) @ '':''
                    @ pad_int 2 (msInDay div 60000 mod 60) @ '':''
                    @ pad_int 2 (msInDay div 1000 mod 60) @ ''.''
                    @ pad_int 3 (msInDay mod 1000) @ ''Z'')))"

lemmas js_eval =
  Number_toString_def digits_of_nat.simps frac_digits.simps digit_char_def Let_def
  num_or_def js_or_def replace_dots_def double_quotes_def pad_left.simps pad_int_def
  toFixed_def Math_round_def TimeClip_def civil_from_days_def iso_year_def
  Date_toISOString_def pow2_def binExponent.simps roundHalfEven_def fl_def fsub_def
  fmul_def fdiv_def Math_pow_2_def Math_PI_def

section \<open>Timestamp normalisation\<close>

text \<open>
  \<open>normalizeTimestamp(timestamp)\<close>: \<open>None\<close> is the source's \<open>null\<close>. The two
  constants are the locals \<open>year2000InMs\<close> and \<open>year2000InSeconds\<close>.
\<close>

definition year2000InMs :: real where
  "year2000InMs = 946684800000"

definition year2000InSeconds :: real where
  "year2000InSeconds = 946684800"

definition normalizeTimestamp :: "real option \<Rightarrow> real option" where
  "normalizeTimestamp timestamp =
     (case timestamp of
        None \<Rightarrow> None
      | Some t \<Rightarrow>
          if t = 0 then None
          else if t < 1000000 then None
          else if t \<ge> 1000000 \<and> t < year2000InSeconds then
            (let converted = t * 1000
             in if converted \<ge> year2000InMs then Some converted else None)
          else if t \<ge> year2000InMs then Some t
          else None)"

section \<open>The deduplication key\<close>

text \<open>
  \<open>generateHistoryKey(originalTimestamp, distance)\<close>. The first argument of the model
  is the value \<open>Date.now()\<close> returns, which the source falls back to when
  \<open>originalTimestamp\<close> is falsy.
\<close>

definition generateHistoryKey :: "real \<Rightarrow> real option \<Rightarrow> real option \<Rightarrow> string" where
  "generateHistoryKey now originalTimestamp distance =
     (let ts = Number_toString (num_or originalTimestamp now);
          dst = replace_dots (Number_toString (num_or distance 0))
      in ts @ ''_'' @ dst)"

section \<open>The store\<close>

text \<open>
  The key-value store behind \<open>get\<close> and \<open>set\<close>: under each device path
  \<open>history/{deviceType}/{deviceId}\<close> the children, one object per key. \<open>get\<close> on a
  device path may throw, and \<open>set\<close> on a child path may reject.
\<close>

record store =
  get_fails :: bool
  set_fails :: "string \<Rightarrow> bool"
  nodes :: "string \<Rightarrow> (string \<times> obj) list"

definition historyPath :: "string \<Rightarrow> string \<Rightarrow> string" where
  "historyPath deviceType deviceId = ''history/'' @ deviceType @ ''/'' @ deviceId"

definition db_set :: "store \<Rightarrow> string \<Rightarrow> string \<Rightarrow> obj \<Rightarrow> bool \<times> store" where
  "db_set st parent key v =
     (if set_fails st (parent @ ''/'' @ key) then (False, st)
      else (True, st\<lparr>nodes := (nodes st)(parent := AList.update key v (nodes st parent))\<rparr>))"

text \<open>\<open>getHistoryRaw\<close>: a failing read is caught and answered with the empty list.\<close>

definition getHistoryRaw :: "store \<Rightarrow> string \<Rightarrow> string \<Rightarrow> obj list" where
  "getHistoryRaw st deviceId deviceType =
     (if get_fails st then [] else map snd (nodes st (historyPath deviceType deviceId)))"

section \<open>Readings, tanks and the sync engine\<close>

text \<open>
  A raw reading: \<open>timestamp\<close> and \<open>distance\<close> are numbers or absent; \<open>other\<close> holds
  the remaining own properties, which the spread \<open>...reading\<close> copies as well.
\<close>

record reading =
  timestamp :: "real option"
  distance :: "real option"
  other :: obj

definition reading_props :: "reading \<Rightarrow> obj" where
  "reading_props r =
     (other r)(''timestamp'' := map_option JNum (timestamp r),
               ''distance'' := map_option JNum (distance r))"

text \<open>The tank fields the sync engine reads; \<open>length_m\<close> is the source's \<open>length\<close>.\<close>

record tank =
  shape :: "string option"
  diameter :: "real option"
  length_m :: "real option"
  breadth :: "real option"
  height :: "real option"
  sensorHeight :: "real option"
  capacity :: "real option"

text \<open>The key computed for an entry \<open>h\<close> already in the store (lines 73 to 77).\<close>

definition existingKey :: "obj \<Rightarrow> string" where
  "existingKey h =
     (let ts = js_String (js_or (js_or (js_or (h ''originalTimestamp'') (h ''deviceTimestamp''))
                                       (h ''timestamp'')) (Some (JStr [])));
          dst = js_String (js_or (h ''distance'') (Some (JStr [])))
      in ts @ ''_'' @ dst)"

text \<open>The key computed for an incoming reading (line 101).\<close>

definition uniqueKey :: "real \<Rightarrow> real option \<Rightarrow> string" where
  "uniqueKey rawTimestamp dst =
     Number_toString rawTimestamp @ ''_'' @ Number_toString (num_or dst 0)"

text \<open>
  Lines 112 to 116: the timestamp assigned by reading order, where \<open>now\<close> is what
  \<open>Date.now()\<close> returns in this iteration.
\<close>

definition synthesizedTimestamp :: "real \<Rightarrow> nat \<Rightarrow> nat \<Rightarrow> real" where
  "synthesizedTimestamp now totalReadings index =
     (let reverseIndex = real totalReadings - 1 - real index;
          minutesBetweenReadings = 5;
          offsetMinutes = reverseIndex * minutesBetweenReadings
      in now - offsetMinutes * 60 * 1000)"

text \<open>Lines 108 to 117: the final value of \<open>normalizedTimestamp\<close>.\<close>

definition canonicalTimestamp :: "real \<Rightarrow> nat \<Rightarrow> nat \<Rightarrow> real \<Rightarrow> real" where
  "canonicalTimestamp now totalReadings index rawTimestamp =
     (case normalizeTimestamp (Some rawTimestamp) of
        None \<Rightarrow> synthesizedTimestamp now totalReadings index
      | Some n \<Rightarrow>
          if n = 0 \<or> n < 946684800000 then synthesizedTimestamp now totalReadings index
          else n)"

text \<open>Lines 120 to 132: the object literal; the spread comes last and overrides.\<close>

definition historyEntry :: "reading \<Rightarrow> real \<Rightarrow> real \<Rightarrow> string \<Rightarrow> obj" where
  "historyEntry r rawTimestamp normalizedTimestamp date =
     (Map.empty
        (''distance'' := map_option JNum (distance r),
         ''distance_meters'' := map_option JNum (distance r),
         ''distance_cm'' :=
            (case distance r of
               None \<Rightarrow> None
             | Some d \<Rightarrow> if d \<noteq> 0 then Some (JStr (toFixed (fmul d 100) 1)) else None),
         ''originalTimestamp'' \<mapsto> JNum rawTimestamp,
         ''deviceTimestamp'' \<mapsto> JNum rawTimestamp,
         ''timestamp'' \<mapsto> JNum normalizedTimestamp,
         ''date'' \<mapsto> JStr date))
     ++ reading_props r"

text \<open>Lines 136 to 150: the locals \<open>sensorHeight\<close>, \<open>waterLevel\<close> and \<open>currentVolume\<close>.\<close>

definition truthy_num :: "real option \<Rightarrow> bool" where
  "truthy_num x = (case x of None \<Rightarrow> False | Some v \<Rightarrow> v \<noteq> 0)"

definition tankSensorHeight :: "tank \<Rightarrow> real" where
  "tankSensorHeight t = num_or (sensorHeight t) (num_or (height t) 10)"

definition tankWaterLevel :: "tank \<Rightarrow> real \<Rightarrow> real" where
  "tankWaterLevel t dst =
     max 0 (min (tankSensorHeight t) (fsub (tankSensorHeight t) dst))"

definition tankCurrentVolume :: "tank \<Rightarrow> real \<Rightarrow> real" where
  "tankCurrentVolume t waterLevel =
     (if shape t = Some ''cylinder'' \<and> truthy_num (diameter t) then
        (let radius = fdiv (the (diameter t)) 2
         in fmul (fmul (fmul Math_PI (Math_pow_2 radius)) waterLevel) 1000)
      else if shape t = Some ''cuboid'' \<and> truthy_num (length_m t) \<and> truthy_num (breadth t) then
        fmul (fmul (fmul (the (length_m t)) (the (breadth t))) waterLevel) 1000
      else
        (let maxCapacity = num_or (capacity t) 20000;
             maxHeight = num_or (height t) 10
         in fmul (fdiv waterLevel maxHeight) maxCapacity))"

text \<open>Lines 153 to 161: the metrics assigned to the entry after the literal.\<close>

definition addTankMetrics :: "tank \<Rightarrow> real \<Rightarrow> obj \<Rightarrow> obj" where
  "addTankMetrics t dst entry =
     (let waterLevel = tankWaterLevel t dst
      in entry
        (''waterLevel'' \<mapsto> JNum waterLevel,
         ''currentVolume'' \<mapsto> JNum (Math_round (tankCurrentVolume t waterLevel)),
         ''capacity'' \<mapsto> JNum (num_or (capacity t) 20000),
         ''shape'' := map_option JStr (shape t),
         ''diameter'' := map_option JNum (diameter t),
         ''length'' := map_option JNum (length_m t),
         ''breadth'' := map_option JNum (breadth t),
         ''height'' := map_option JNum (height t),
         ''sensorHeight'' \<mapsto> JNum (tankSensorHeight t)))"

text \<open>
  One iteration of the loop (lines 91 to 177): the reading is skipped, or a write of an
  entry under a key is issued, or \<open>toISOString\<close> throws.
\<close>

datatype outcome = Skipped | Saved string obj | Thrown string

definition processReading ::
  "real \<Rightarrow> string list \<Rightarrow> tank option \<Rightarrow> nat \<Rightarrow> nat \<Rightarrow> reading \<Rightarrow> outcome" where
  "processReading now existingKeys tk totalReadings index r =
     (let rawTimestamp = num_or (timestamp r) 0;
          dst = distance r
      in if rawTimestamp = 0 then Skipped
         else if uniqueKey rawTimestamp dst \<in> set existingKeys then Skipped
         else
           (let normalizedTimestamp = canonicalTimestamp now totalReadings index rawTimestamp
            in case Date_toISOString normalizedTimestamp of
                 None \<Rightarrow> Thrown ''Invalid time value''
               | Some date \<Rightarrow>
                   (let entry = historyEntry r rawTimestamp normalizedTimestamp date;
                        entry' = (case (tk, dst) of
                                    (Some t, Some d) \<Rightarrow> addTankMetrics t d entry
                                  | _ \<Rightarrow> entry);
                        historyKey = generateHistoryKey now (Some rawTimestamp) dst
                    in Saved historyKey entry')))"

text \<open>
  The loop over the sorted readings. \<open>now i\<close> is the clock while reading \<open>i\<close> is
  processed. The state is \<open>skippedCount\<close> and the writes issued so far; a throw ends
  the loop and is returned third.
\<close>

fun syncLoop ::
  "(nat \<Rightarrow> real) \<Rightarrow> string list \<Rightarrow> tank option \<Rightarrow> nat \<Rightarrow> nat \<Rightarrow> reading list
     \<Rightarrow> nat \<times> (string \<times> obj) list \<Rightarrow> nat \<times> (string \<times> obj) list \<times> string option" where
  "syncLoop now existingKeys tk totalReadings index [] (skippedCount, saves) =
     (skippedCount, saves, None)"
| "syncLoop now existingKeys tk totalReadings index (r # rs) (skippedCount, saves) =
     (case processReading (now index) existingKeys tk totalReadings index r of
        Skipped \<Rightarrow> syncLoop now existingKeys tk totalReadings (Suc index) rs (Suc skippedCount, saves)
      | Saved k e \<Rightarrow> syncLoop now existingKeys tk totalReadings (Suc index) rs (skippedCount, saves @ [(k, e)])
      | Thrown msg \<Rightarrow> (skippedCount, saves, Some msg))"

text \<open>
  The issued writes, in order; each that does not reject lands and counts as synced.
\<close>

fun applyWrites :: "store \<Rightarrow> string \<Rightarrow> (string \<times> obj) list \<Rightarrow> nat \<times> store" where
  "applyWrites st parent [] = (0, st)"
| "applyWrites st parent ((k, e) # ws) =
     (case db_set st parent k e of
        (True, st') \<Rightarrow> (case applyWrites st' parent ws of (n, st'') \<Rightarrow> (Suc n, st''))
      | (False, st') \<Rightarrow> applyWrites st' parent ws)"

record sync_result =
  synced :: nat
  skipped :: nat
  error :: "string option"

definition syncDeviceReadingsToHistory ::
  "(nat \<Rightarrow> real) \<Rightarrow> store \<Rightarrow> string \<Rightarrow> string \<Rightarrow> reading list \<Rightarrow> tank option
     \<Rightarrow> sync_result \<times> store" where
  "syncDeviceReadingsToHistory now st tankId deviceType readings tk =
     (if readings = [] then (\<lparr>synced = 0, skipped = 0, error = None\<rparr>, st)
      else
        (let existingHistory = getHistoryRaw st tankId deviceType;
             existingKeys = map existingKey existingHistory;
             sortedReadings = sort_key (\<lambda>a. num_or (timestamp a) 0) readings;
             (skippedCount, saves, thrown) =
                syncLoop now existingKeys tk (length sortedReadings) 0 sortedReadings (0, []);
             (syncedCount, st') = applyWrites st (historyPath deviceType tankId) saves
         in case thrown of
              None \<Rightarrow> (\<lparr>synced = syncedCount, skipped = skippedCount, error = None\<rparr>, st')
            | Some msg \<Rightarrow> (\<lparr>synced = 0, skipped = 0, error = Some msg\<rparr>, st')))"

text \<open>
  What the iteration at each position of the sorted batch does with the reading there:
  the body of the loop at every index, without the loop's counters.
\<close>

definition iterationOutcomes ::
  "(nat \<Rightarrow> real) \<Rightarrow> string list \<Rightarrow> tank option \<Rightarrow> reading list \<Rightarrow> outcome list" where
  "iterationOutcomes now existingKeys tk sortedReadings =
     map (\<lambda>(index, r).
            processReading (now index) existingKeys tk (length sortedReadings) index r)
         (enumerate 0 sortedReadings)"

lemmas sync_eval =
  historyPath_def db_set_def getHistoryRaw_def reading_props_def existingKey_def uniqueKey_def
  synthesizedTimestamp_def canonicalTimestamp_def historyEntry_def truthy_num_def tankSensorHeight_def
  tankWaterLevel_def tankCurrentVolume_def addTankMetrics_def processReading_def
  syncDeviceReadingsToHistory_def normalizeTimestamp_def year2000InMs_def
  year2000InSeconds_def generateHistoryKey_def

section \<open>The query engine\<close>

text \<open>
  A stored entry as \<open>getHistory\<close> reads it: the three timestamp fields are numbers or
  absent, \<open>h_rest\<close> carries every other field unchanged. A returned row is the entry
  with \<open>timestamp\<close> replaced and \<open>sortKey\<close> added.
\<close>

record 'a hist_entry =
  h_timestamp :: "real option"
  h_originalTimestamp :: "real option"
  h_deviceTimestamp :: "real option"
  h_rest :: 'a

record 'a hist_row =
  row_timestamp :: real
  row_sortKey :: real
  row_entry :: "'a hist_entry"

text \<open>\<open>a || b\<close> on numbers that may be absent.\<close>

definition opt_or :: "real option \<Rightarrow> real option \<Rightarrow> real option" where
  "opt_or a b = (if truthy_num a then a else b)"

text \<open>The callback of \<open>history.map\<close> (lines 237 to 253); \<open>now\<close> is \<open>Date.now()\<close>.\<close>

definition normalizeEntry :: "real \<Rightarrow> 'a hist_entry \<Rightarrow> 'a hist_row" where
  "normalizeEntry now h =
     (let normalizedTs =
            normalizeTimestamp
              (opt_or (opt_or (h_timestamp h) (h_originalTimestamp h)) (h_deviceTimestamp h));
          normalizedTs' =
            (case normalizedTs of
               Some n \<Rightarrow>
                 if n = 0 \<or> n < 946684800000 then
                   (if truthy_num (h_timestamp h) \<and> the (h_timestamp h) > 946684800000
                    then the (h_timestamp h) else num_or (h_timestamp h) now)
                 else n
             | None \<Rightarrow>
                 (if truthy_num (h_timestamp h) \<and> the (h_timestamp h) > 946684800000
                  then the (h_timestamp h) else num_or (h_timestamp h) now))
      in \<lparr>row_timestamp = normalizedTs',
          row_sortKey =
            num_or (opt_or (opt_or (h_originalTimestamp h) (h_deviceTimestamp h)) (h_timestamp h)) 0,
          row_entry = h\<rparr>)"

text \<open>
  The date arguments: a \<open>Date\<close> object (its time value, \<open>None\<close> for an invalid date)
  or a string. Parsing a local date-time string is left to the environment: \<open>parse\<close>
  returns \<open>None\<close> for \<open>NaN\<close>, against which every comparison is false.
\<close>

datatype date_arg = DateObj "real option" | DateStr string

fun date_truthy :: "date_arg option \<Rightarrow> bool" where
  "date_truthy None = False"
| "date_truthy (Some (DateObj t)) = True"
| "date_truthy (Some (DateStr s)) = (s \<noteq> [])"

fun startTimeOf :: "(string \<Rightarrow> real option) \<Rightarrow> date_arg \<Rightarrow> real option" where
  "startTimeOf parse (DateObj t) = t"
| "startTimeOf parse (DateStr s) = parse (s @ ''T00:00:00'')"

fun endTimeOf :: "(string \<Rightarrow> real option) \<Rightarrow> date_arg \<Rightarrow> real option" where
  "endTimeOf parse (DateObj t) = map_option (\<lambda>v. v + 86400000) t"
| "endTimeOf parse (DateStr s) = parse (s @ ''T23:59:59'')"

definition filterStart :: "real option \<Rightarrow> 'a hist_row list \<Rightarrow> 'a hist_row list" where
  "filterStart startTime history =
     filter (\<lambda>h. case startTime of None \<Rightarrow> False | Some s \<Rightarrow> row_timestamp h \<ge> s) history"

definition filterEnd :: "real option \<Rightarrow> 'a hist_row list \<Rightarrow> 'a hist_row list" where
  "filterEnd endTime history =
     filter (\<lambda>h. case endTime of None \<Rightarrow> False | Some e \<Rightarrow> row_timestamp h \<le> e) history"

text \<open>
  The comparator of the final sort (lines 279 to 284) and a stable insertion sort by it.
\<close>

definition compareRows :: "'a hist_row \<Rightarrow> 'a hist_row \<Rightarrow> real" where
  "compareRows a b =
     (if row_sortKey a \<noteq> 0 \<and> row_sortKey b \<noteq> 0
         \<and> row_sortKey a < 1000000 \<and> row_sortKey b < 1000000
      then row_sortKey b - row_sortKey a
      else row_timestamp b - row_timestamp a)"

fun insert_by :: "('a \<Rightarrow> 'a \<Rightarrow> real) \<Rightarrow> 'a \<Rightarrow> 'a list \<Rightarrow> 'a list" where
  "insert_by cmp x [] = [x]"
| "insert_by cmp x (y # ys) = (if cmp x y \<le> 0 then x # y # ys else y # insert_by cmp x ys)"

definition sort_by :: "('a \<Rightarrow> 'a \<Rightarrow> real) \<Rightarrow> 'a list \<Rightarrow> 'a list" where
  "sort_by cmp xs = foldr (insert_by cmp) xs []"

text \<open>
  The rows after \<open>map\<close> and \<open>filter(h => h.timestamp)\<close> (line 253); \<open>now i\<close> is the
  clock while entry \<open>i\<close> is mapped.
\<close>

definition normalizedHistory :: "(nat \<Rightarrow> real) \<Rightarrow> 'a hist_entry list \<Rightarrow> 'a hist_row list" where
  "normalizedHistory now raw =
     filter (\<lambda>h. row_timestamp h \<noteq> 0)
       (map (\<lambda>(i, h). normalizeEntry (now i) h) (zip [0..<length raw] raw))"

text \<open>
  \<open>getHistory\<close>. The fetched value is \<open>None\<close> when \<open>get\<close> throws (caught, \<open>[]\<close>) and
  the list of stored entries otherwise (empty when nothing exists at the path).
\<close>

definition getHistory ::
  "(nat \<Rightarrow> real) \<Rightarrow> (string \<Rightarrow> real option) \<Rightarrow> 'a hist_entry list option
     \<Rightarrow> date_arg option \<Rightarrow> date_arg option \<Rightarrow> 'a hist_row list" where
  "getHistory now parse fetched startDate endDate =
     (case fetched of
        None \<Rightarrow> []
      | Some raw \<Rightarrow>
          if raw = [] then []
          else
            (let history = normalizedHistory now raw;
                 hasValidTimestamps = (\<exists>h \<in> set history. row_timestamp h > 946684800000);
                 history1 =
                   (if hasValidTimestamps \<and> date_truthy startDate
                    then filterStart (startTimeOf parse (the startDate)) history else history);
                 history2 =
                   (if hasValidTimestamps \<and> date_truthy endDate
                    then filterEnd (endTimeOf parse (the endDate)) history1 else history1)
             in sort_by compareRows history2))"

section \<open>The CSV export\<close>

text \<open>
  The two string columns of \<open>exportToCSV\<close> that are written between double quotes: the
  last cell of a row in the tanks schema (lines 329 to 343) and the last cell of a row
  in the valve schema (line 372).
\<close>

record valve_state =
  v_name :: string
  v_state :: string

fun join :: "string \<Rightarrow> string list \<Rightarrow> string" where
  "join sep [] = []"
| "join sep [x] = x"
| "join sep (x # y # ys) = x @ sep @ join sep (y # ys)"

definition valveStatesStr :: "valve_state list option \<Rightarrow> string" where
  "valveStatesStr valveStates =
     (case valveStates of
        None \<Rightarrow> ''No data''
      | Some vs \<Rightarrow> join ''; '' (map (\<lambda>v. v_name v @ '':'' @ v_state v) vs))"

definition tanksValveStatesCell :: "valve_state list option \<Rightarrow> string" where
  "tanksValveStatesCell valveStates = [CHR 0x22] @ valveStatesStr valveStates @ [CHR 0x22]"

definition valveChangesCell :: "string option \<Rightarrow> string" where
  "valveChangesCell changes =
     [CHR 0x22]
     @ double_quotes (case changes of None \<Rightarrow> ''No changes''
                      | Some s \<Rightarrow> if s \<noteq> [] then s else ''No changes'')
     @ [CHR 0x22]"

section \<open>Concrete inputs used in the evaluations\<close>

definition emptyStore :: store where
  "emptyStore = \<lparr>get_fails = False, set_fails = (\<lambda>_. False), nodes = (\<lambda>_. [])\<rparr>"

definition unreadableStore :: store where
  "unreadableStore = \<lparr>get_fails = True, set_fails = (\<lambda>_. False), nodes = (\<lambda>_. [])\<rparr>"

text \<open>The reading \<open>{timestamp: ts, distance: d}\<close>.\<close>

definition plainReading :: "real \<Rightarrow> real \<Rightarrow> reading" where
  "plainReading ts d = \<lparr>timestamp = Some ts, distance = Some d, other = Map.empty\<rparr>"

text \<open>A cylinder whose diameter is zero; every field is defined.\<close>

definition zeroDiameterTank :: tank where
  "zeroDiameterTank =
     \<lparr>shape = Some ''cylinder'', diameter = Some 0, length_m = Some 10, breadth = Some 10,
      height = Some 5, sensorHeight = Some 5, capacity = Some 20000\<rparr>"

text \<open>Two stored entries that carry device counters instead of wall-clock times.\<close>

definition counterEntries :: "unit hist_entry list" where
  "counterEntries =
     [\<lparr>h_timestamp = Some 5000, h_originalTimestamp = Some 5000,
       h_deviceTimestamp = Some 5000, h_rest = ()\<rparr>,
      \<lparr>h_timestamp = Some 7000, h_originalTimestamp = None,
       h_deviceTimestamp = None, h_rest = ()\<rparr>]"

text \<open>The valve \<open>{name: 'a"b', state: 'open'}\<close>.\<close>

definition quotedValve :: valve_state where
  "quotedValve = \<lparr>v_name = [CHR ''a'', CHR 0x22, CHR ''b''], v_state = ''open''\<rparr>"

lemmas example_defs =
  emptyStore_def unreadableStore_def plainReading_def zeroDiameterTank_def
  counterEntries_def quotedValve_def

section \<open>Properties of the timestamp normaliser\<close>

text \<open>
  Claim C7. For every input, \<open>normalizeTimestamp\<close> returns either \<open>null\<close> or a value of
  at least 946,684,800,000; it never returns a value in \<open>[1, 946684800000)\<close>; and an
  input that is absent, zero or below 1,000,000 always yields \<open>null\<close>. The statement
  holds for every number, the integers among them.
\<close>

theorem normalizeTimestamp_canonical_or_invalid:
  "(normalizeTimestamp x = None \<or> (\<exists>v. normalizeTimestamp x = Some v \<and> v \<ge> 946684800000))
   \<and> ((x = None \<or> x = Some 0 \<or> (\<exists>t. x = Some t \<and> t < 1000000)) \<longrightarrow> normalizeTimestamp x = None)"
  by (auto simp: normalizeTimestamp_def year2000InMs_def year2000InSeconds_def Let_def
           split: option.splits)

theorem normalizeTimestamp_canonical_or_invalid_witness:
  "normalizeTimestamp (Some 5000) = None
   \<and> normalizeTimestamp (Some 1700000000000) = Some 1700000000000
   \<and> (1700000000000::real) \<ge> 946684800000"
  using normalizeTimestamp_canonical_or_invalid [of "Some 5000"]
        normalizeTimestamp_canonical_or_invalid [of "Some 1700000000000"]
  by (simp add: normalizeTimestamp_def year2000InMs_def year2000InSeconds_def)

text \<open>
  Claim C10. For every raw timestamp in the band \<open>[1000000, 946684800)\<close> the value times
  1000 is strictly below 946,684,800,000 and \<open>normalizeTimestamp\<close> returns \<open>null\<close>;
  the result is not \<open>null\<close> exactly when the input is already at least
  946,684,800,000; and whatever is returned is the input itself, so the
  seconds-to-milliseconds branch never returns a value.
\<close>

theorem normalizeTimestamp_seconds_branch_dead:
  "(1000000 \<le> t \<and> t < 946684800 \<longrightarrow>
      t * 1000 < 946684800000 \<and> normalizeTimestamp (Some t) = None)
   \<and> (normalizeTimestamp x \<noteq> None \<longleftrightarrow> (\<exists>u. x = Some u \<and> u \<ge> 946684800000))
   \<and> (normalizeTimestamp x = Some v \<longrightarrow> x = Some v)"
  by (auto simp: normalizeTimestamp_def year2000InMs_def year2000InSeconds_def Let_def
           split: option.splits if_splits)

theorem normalizeTimestamp_seconds_branch_dead_witness:
  "(1000000::real) \<le> 900000000 \<and> (900000000::real) < 946684800
   \<and> (900000000::real) * 1000 < 946684800000
   \<and> normalizeTimestamp (Some 900000000) = None
   \<and> normalizeTimestamp (Some 1700000000000) = Some 1700000000000"
  using normalizeTimestamp_seconds_branch_dead [of 900000000 "Some 1700000000000" 1700000000000]
  by (simp add: normalizeTimestamp_def year2000InMs_def year2000InSeconds_def)

section \<open>Properties of the deduplication key\<close>

lemma replace_dots_no_dot: "CHR ''.'' \<notin> set (replace_dots s)"
  by (auto simp: replace_dots_def)

text \<open>
  Claim C6, as stated, fails: when \<open>originalTimestamp\<close> is absent the key does not start
  with \<open>0\<close> but with the current time, so the same two arguments give different keys at
  different instants.
\<close>

theorem generateHistoryKey_clock_fallback_counterexample:
  "generateHistoryKey 1700000000000 None (Some (5 / 2)) = ''1700000000000_2_5''
   \<and> generateHistoryKey 1700000000000 None (Some (5 / 2)) \<noteq> ''0_2_5''
   \<and> generateHistoryKey 1700000000000 None (Some (5 / 2))
       \<noteq> generateHistoryKey 1700000300000 None (Some (5 / 2))"
  by (simp add: generateHistoryKey_def js_eval cong: let_weak_cong)

text \<open>
  Claim C6, amended. The key is the string of \<open>originalTimestamp\<close> (of \<open>Date.now()\<close>
  when that is absent or zero), an underscore, and the string of \<open>distance\<close> (of \<open>0\<close>
  when that is absent or zero) with every dot replaced by an underscore; the distance
  part holds no dot; and when \<open>originalTimestamp\<close> is a non-zero number the key does not
  depend on the clock.
\<close>

theorem generateHistoryKey_shape:
  "generateHistoryKey now originalTimestamp d =
     Number_toString (num_or originalTimestamp now) @ ''_''
       @ replace_dots (Number_toString (num_or d 0))
   \<and> CHR ''.'' \<notin> set (replace_dots (Number_toString (num_or d 0)))
   \<and> (truthy_num originalTimestamp \<longrightarrow>
        generateHistoryKey now originalTimestamp d
          = generateHistoryKey now' originalTimestamp d)"
  by (auto simp: generateHistoryKey_def replace_dots_no_dot num_or_def truthy_num_def Let_def
           split: option.splits)

theorem generateHistoryKey_shape_witness:
  "truthy_num (Some 1700000000000)
   \<and> generateHistoryKey 1 (Some 1700000000000) (Some (5 / 2)) = ''1700000000000_2_5''
   \<and> generateHistoryKey 1 (Some 1700000000000) (Some (5 / 2))
       = generateHistoryKey 2 (Some 1700000000000) (Some (5 / 2))"
  using generateHistoryKey_shape [of 1 "Some 1700000000000" "Some (5 / 2)" 2]
  by (simp add: generateHistoryKey_def js_eval truthy_num_def cong: let_weak_cong)

section \<open>Properties of the sync engine\<close>

subsection \<open>Auxiliary facts\<close>

lemma applyWrites_count:
  "fst (applyWrites st p ws) = length (filter (\<lambda>(k, e). \<not> set_fails st (p @ ''/'' @ k)) ws)"
proof (induction ws arbitrary: st)
  case Nil
  then show ?case by simp
next
  case (Cons w ws)
  obtain k e where w: "w = (k, e)" by (cases w)
  show ?case
  proof (cases "set_fails st (p @ ''/'' @ k)")
    case True
    then show ?thesis using Cons.IH [of st] by (simp add: w db_set_def)
  next
    case False
    let ?st' = "st\<lparr>nodes := (nodes st)(p := AList.update k e (nodes st p))\<rparr>"
    obtain n st'' where aw: "applyWrites ?st' p ws = (n, st'')"
      by (cases "applyWrites ?st' p ws")
    have "n = length (filter (\<lambda>(k, e). \<not> set_fails st (p @ ''/'' @ k)) ws)"
      using Cons.IH [of ?st'] aw by simp
    then show ?thesis using False aw
      by (simp add: w db_set_def)
  qed
qed

lemma processReading_no_existing_Skipped:
  "processReading now [] tk totalReadings index r = Skipped \<longleftrightarrow> num_or (timestamp r) 0 = 0"
  by (simp add: processReading_def Let_def split: option.splits)

lemma syncLoop_no_existing_counts:
  "syncLoop now [] tk totalReadings index rs (sk, ws) = (sk', ws', None) \<Longrightarrow>
     sk' = sk + length (filter (\<lambda>r. num_or (timestamp r) 0 = 0) rs)
     \<and> length ws' = length ws + length (filter (\<lambda>r. num_or (timestamp r) 0 \<noteq> 0) rs)"
proof (induction rs arbitrary: index sk ws)
  case Nil
  then show ?case by simp
next
  case (Cons r rs)
  show ?case
  proof (cases "processReading (now index) [] tk totalReadings index r")
    case Skipped
    then have z: "num_or (timestamp r) 0 = 0"
      by (simp add: processReading_no_existing_Skipped)
    from Cons.prems Skipped
    have "syncLoop now [] tk totalReadings (Suc index) rs (Suc sk, ws) = (sk', ws', None)"
      by simp
    from Cons.IH [OF this] z show ?thesis by simp
  next
    case (Saved k e)
    then have nz: "num_or (timestamp r) 0 \<noteq> 0"
      using processReading_no_existing_Skipped [of "now index" tk totalReadings index r] by auto
    from Cons.prems Saved
    have "syncLoop now [] tk totalReadings (Suc index) rs (sk, ws @ [(k, e)]) = (sk', ws', None)"
      by simp
    from Cons.IH [OF this] nz show ?thesis by simp
  next
    case (Thrown msg)
    with Cons.prems show ?thesis by simp
  qed
qed

lemma canonicalTimestamp_invalid:
  "raw < 946684800000 \<Longrightarrow>
     canonicalTimestamp now totalReadings index raw = synthesizedTimestamp now totalReadings index"
  by (simp add: canonicalTimestamp_def normalizeTimestamp_def year2000InMs_def
                year2000InSeconds_def Let_def)

lemma synthesizedTimestamp_formula:
  "synthesizedTimestamp now n i = now - (real n - 1 - real i) * 300000"
  by (simp add: synthesizedTimestamp_def Let_def)

lemma historyEntry_date:
  "other r ''date'' = None \<Longrightarrow> historyEntry r raw n date ''date'' = Some (JStr date)"
  by (simp add: historyEntry_def reading_props_def map_add_def)

lemma addTankMetrics_date: "addTankMetrics t d e ''date'' = e ''date''"
  by (simp add: addTankMetrics_def Let_def)

lemma processReading_synthesized:
  assumes "timestamp r = Some raw" and "raw \<noteq> 0" and "raw < 946684800000"
      and "uniqueKey raw (distance r) \<notin> set existingKeys"
      and "other r ''date'' = None"
      and "Date_toISOString (synthesizedTimestamp now totalReadings index) = Some date"
  shows "\<exists>e. processReading now existingKeys tk totalReadings index r
               = Saved (generateHistoryKey now (Some raw) (distance r)) e
             \<and> e ''date'' = Some (JStr date)"
  using assms
  by (auto simp: processReading_def num_or_def canonicalTimestamp_invalid Let_def
                 historyEntry_date addTankMetrics_date
           split: option.splits)

lemma syncLoop_all_synthesized:
  assumes "\<forall>r \<in> set rs. \<exists>raw. timestamp r = Some raw \<and> raw \<noteq> 0 \<and> raw < 946684800000
              \<and> uniqueKey raw (distance r) \<notin> set existingKeys \<and> other r ''date'' = None"
      and "\<forall>j < length rs. Date_toISOString
              (synthesizedTimestamp (now (idx + j)) totalReadings (idx + j)) \<noteq> None"
  shows "\<exists>saves. syncLoop now existingKeys tk totalReadings idx rs (sk, ws) = (sk, ws @ saves, None)
           \<and> length saves = length rs
           \<and> (\<forall>j < length rs. snd (saves ! j) ''date''
                  = map_option JStr (Date_toISOString
                       (synthesizedTimestamp (now (idx + j)) totalReadings (idx + j))))"
  using assms
proof (induction rs arbitrary: idx ws)
  case Nil
  then show ?case by simp
next
  case (Cons r rs)
  from Cons.prems(1) obtain raw where r: "timestamp r = Some raw" "raw \<noteq> 0" "raw < 946684800000"
      "uniqueKey raw (distance r) \<notin> set existingKeys" "other r ''date'' = None"
    by auto
  from Cons.prems(2) obtain date where
    d: "Date_toISOString (synthesizedTimestamp (now idx) totalReadings idx) = Some date"
    by fastforce
  from processReading_synthesized [OF r d] obtain e where
    e: "processReading (now idx) existingKeys tk totalReadings idx r
          = Saved (generateHistoryKey (now idx) (Some raw) (distance r)) e"
       "e ''date'' = Some (JStr date)"
    by blast
  let ?k = "generateHistoryKey (now idx) (Some raw) (distance r)"
  have p1: "\<forall>r \<in> set rs. \<exists>raw. timestamp r = Some raw \<and> raw \<noteq> 0 \<and> raw < 946684800000
              \<and> uniqueKey raw (distance r) \<notin> set existingKeys \<and> other r ''date'' = None"
    using Cons.prems(1) by simp
  have p2: "\<forall>j < length rs. Date_toISOString
              (synthesizedTimestamp (now (Suc idx + j)) totalReadings (Suc idx + j)) \<noteq> None"
  proof (intro allI impI)
    fix j assume "j < length rs"
    then have "Suc j < length (r # rs)" by simp
    from Cons.prems(2) [rule_format, OF this] show
      "Date_toISOString (synthesizedTimestamp (now (Suc idx + j)) totalReadings (Suc idx + j)) \<noteq> None"
      by simp
  qed
  from Cons.IH [OF p1 p2, of "ws @ [(?k, e)]"] obtain saves where
    s: "syncLoop now existingKeys tk totalReadings (Suc idx) rs (sk, ws @ [(?k, e)])
          = (sk, (ws @ [(?k, e)]) @ saves, None)"
       "length saves = length rs"
       "\<forall>j < length rs. snd (saves ! j) ''date''
           = map_option JStr (Date_toISOString
                (synthesizedTimestamp (now (Suc idx + j)) totalReadings (Suc idx + j)))"
    by blast
  have "syncLoop now existingKeys tk totalReadings idx (r # rs) (sk, ws)
          = (sk, ws @ ((?k, e) # saves), None)"
    using e(1) s(1) by simp
  moreover have "length ((?k, e) # saves) = length (r # rs)"
    using s(2) by simp
  moreover have "\<forall>j < length (r # rs). snd (((?k, e) # saves) ! j) ''date''
           = map_option JStr (Date_toISOString
                (synthesizedTimestamp (now (idx + j)) totalReadings (idx + j)))"
  proof (intro allI impI)
    fix j assume j: "j < length (r # rs)"
    show "snd (((?k, e) # saves) ! j) ''date''
           = map_option JStr (Date_toISOString
                (synthesizedTimestamp (now (idx + j)) totalReadings (idx + j)))"
    proof (cases j)
      case 0
      then show ?thesis using e(2) d by simp
    next
      case (Suc j')
      then have "j' < length rs" using j by simp
      from s(3) [rule_format, OF this] show ?thesis using Suc by simp
    qed
  qed
  ultimately show ?case by blast
qed

lemma tank_never_throws:
  "(processReading now keys (Some t) n i r = Thrown m) = (processReading now keys None n i r = Thrown m)"
  by (auto simp: processReading_def Let_def split: option.splits)

lemma synthesizedTimestamp_step:
  "synthesizedTimestamp t0 n (Suc i) - synthesizedTimestamp t0 n i = 300000"
  by (simp add: synthesizedTimestamp_def Let_def algebra_simps)

lemma synthesizedTimestamp_last:
  "0 < n \<Longrightarrow> synthesizedTimestamp t0 n (n - 1) = t0"
  by (simp add: synthesizedTimestamp_def Let_def of_nat_diff)

subsection \<open>The persisted timestamp\<close>

text \<open>
  Whatever reading is written, the \<open>timestamp\<close> of its entry is the reading's own raw
  timestamp.
\<close>

lemma addTankMetrics_timestamp: "addTankMetrics t d e ''timestamp'' = e ''timestamp''"
  by (simp add: addTankMetrics_def Let_def)

lemma processReading_persists_raw_timestamp:
  assumes "processReading now existingKeys tk totalReadings index r = Saved k e"
  shows "e ''timestamp'' = map_option JNum (timestamp r) \<and> num_or (timestamp r) 0 \<noteq> 0"
proof -
  from assms have nz: "num_or (timestamp r) 0 \<noteq> 0"
    by (auto simp: processReading_def Let_def split: if_splits)
  then obtain raw where raw: "timestamp r = Some raw"
    by (cases "timestamp r") (auto simp: num_or_def)
  have "historyEntry r a b c ''timestamp'' = Some (JNum raw)" for a b c
    by (simp add: historyEntry_def reading_props_def map_add_def raw)
  with assms raw nz show ?thesis
    by (auto simp: processReading_def Let_def addTankMetrics_timestamp
             split: if_splits option.splits)
qed

text \<open>
  Claim C1 says that every persisted entry carries the canonical timestamp in
  \<open>timestamp\<close> and its ISO rendering in \<open>date\<close>. The code evaluated: the reading
  \<open>{timestamp: 5000, distance: 2.5}\<close> is synced into an empty history while the clock
  shows 1700000000000. Its canonical timestamp is 1700000000000 and \<open>date\<close> renders
  that, but the entry stored under \<open>5000_2_5\<close> has \<open>timestamp\<close> 5000, the raw device
  value: the spread at the end of the object literal overwrites the field.
\<close>

theorem sync_persists_raw_timestamp_example:
  "map (\<lambda>(k, e). (k, e ''timestamp'', e ''originalTimestamp'', e ''date''))
       (nodes (snd (syncDeviceReadingsToHistory (\<lambda>_. 1700000000000) emptyStore ''t1'' ''tanks''
                      [plainReading 5000 (5 / 2)] None))
              (historyPath ''tanks'' ''t1''))
     = [(''5000_2_5'', Some (JNum 5000), Some (JNum 5000), Some (JStr ''2023-11-14T22:13:20.000Z''))]
   \<and> canonicalTimestamp 1700000000000 1 0 5000 = 1700000000000
   \<and> Date_toISOString 5000 = Some ''1970-01-01T00:00:05.000Z''"
  by (simp add: example_defs sync_eval js_eval cong: let_weak_cong)

subsection \<open>Repeating a sync\<close>

text \<open>
  Claim C2 says that a second sync of an identical batch returns \<open>synced = 0\<close> and
  \<open>skipped = len(readings)\<close>. The code evaluated: the batch is the single reading
  \<open>{timestamp: 1700000000000, distance: 0}\<close>, every write lands, and the second call
  again returns \<open>synced = 1\<close>, \<open>skipped = 0\<close>. The key built from the stored entry ends
  in the empty string (\<open>h.distance || ''\<close>), the key built from the reading ends in
  \<open>0\<close> (\<open>distance || 0\<close>).
\<close>

theorem second_sync_repeats_zero_distance_example:
  "fst (syncDeviceReadingsToHistory (\<lambda>_. 1700000000000) emptyStore ''t1'' ''tanks''
          [plainReading 1700000000000 0] None)
     = \<lparr>synced = 1, skipped = 0, error = None\<rparr>
   \<and> fst (syncDeviceReadingsToHistory (\<lambda>_. 1700000000000)
            (snd (syncDeviceReadingsToHistory (\<lambda>_. 1700000000000) emptyStore ''t1'' ''tanks''
                    [plainReading 1700000000000 0] None))
            ''t1'' ''tanks'' [plainReading 1700000000000 0] None)
     = \<lparr>synced = 1, skipped = 0, error = None\<rparr>
   \<and> map existingKey (getHistoryRaw
            (snd (syncDeviceReadingsToHistory (\<lambda>_. 1700000000000) emptyStore ''t1'' ''tanks''
                    [plainReading 1700000000000 0] None)) ''t1'' ''tanks'')
     = [''1700000000000_'']
   \<and> uniqueKey 1700000000000 (Some 0) = ''1700000000000_0''"
  by (simp add: example_defs sync_eval js_eval cong: let_weak_cong)

text \<open>
  With non-zero distances the two keys agree and the second call skips both readings
  (the readings of the scenario in the specification).
\<close>

lemma second_sync_skips_nonzero_distance_example:
  "fst (syncDeviceReadingsToHistory (\<lambda>_. 1700000000000)
            (snd (syncDeviceReadingsToHistory (\<lambda>_. 1700000000000) emptyStore ''t1'' ''tanks''
                    [plainReading 1700000000000 (5/2), plainReading 1700000300000 (12/5)] None))
            ''t1'' ''tanks'' [plainReading 1700000000000 (5/2), plainReading 1700000300000 (12/5)] None)
     = \<lparr>synced = 0, skipped = 2, error = None\<rparr>"
  by (simp add: example_defs sync_eval js_eval cong: let_weak_cong)

subsection \<open>A failing read of the existing history\<close>

text \<open>
  Claim C3, as stated, fails: with a store whose \<open>get\<close> throws, sync of one valid
  reading returns \<open>{synced: 1, skipped: 0}\<close> without an error and writes the entry.
\<close>

theorem sync_read_failure_counterexample:
  "fst (syncDeviceReadingsToHistory (\<lambda>_. 1700000000000) unreadableStore ''t1'' ''tanks''
          [plainReading 1700000000000 (5 / 2)] None)
     = \<lparr>synced = 1, skipped = 0, error = None\<rparr>
   \<and> map fst (nodes (snd (syncDeviceReadingsToHistory (\<lambda>_. 1700000000000) unreadableStore
                           ''t1'' ''tanks'' [plainReading 1700000000000 (5 / 2)] None))
                 (historyPath ''tanks'' ''t1''))
     = [''1700000000000_2_5'']"
  by (simp add: example_defs sync_eval js_eval cong: let_weak_cong)

text \<open>
  Claim C3, amended. If the store's \<open>get\<close> throws while the existing history is
  read, \<open>getHistoryRaw\<close> catches the exception and returns the empty list, and sync
  returns exactly what it returns on a readable store with no history for the device.
  When that result has no error, \<open>skipped\<close> counts the readings without a non-zero
  timestamp, and, if no write rejects, \<open>synced\<close> counts all the others.
\<close>

theorem sync_read_failure_swallowed:
  assumes "get_fails st"
  shows "getHistoryRaw st tankId deviceType = []
     \<and> fst (syncDeviceReadingsToHistory now st tankId deviceType readings tk)
        = fst (syncDeviceReadingsToHistory now
                 (st\<lparr>get_fails := False,
                     nodes := (nodes st)(historyPath deviceType tankId := [])\<rparr>)
                 tankId deviceType readings tk)
     \<and> (error (fst (syncDeviceReadingsToHistory now st tankId deviceType readings tk)) = None \<longrightarrow>
          skipped (fst (syncDeviceReadingsToHistory now st tankId deviceType readings tk))
            = length (filter (\<lambda>r. num_or (timestamp r) 0 = 0) readings)
          \<and> ((\<forall>p. \<not> set_fails st p) \<longrightarrow>
               synced (fst (syncDeviceReadingsToHistory now st tankId deviceType readings tk))
                 = length (filter (\<lambda>r. num_or (timestamp r) 0 \<noteq> 0) readings)))"
proof -
  let ?sorted = "sort_key (\<lambda>a. num_or (timestamp a) 0) readings"
  let ?st2 = "st\<lparr>get_fails := False, nodes := (nodes st)(historyPath deviceType tankId := [])\<rparr>"
  have raw: "getHistoryRaw st tankId deviceType = []"
    using assms by (simp add: getHistoryRaw_def)
  have raw2: "getHistoryRaw ?st2 tankId deviceType = []"
    by (simp add: getHistoryRaw_def)
  obtain sk ws th where loop:
    "syncLoop now [] tk (length ?sorted) 0 ?sorted (0, []) = (sk, ws, th)"
    by (cases "syncLoop now [] tk (length ?sorted) 0 ?sorted (0, [])") auto
  have cnt: "fst (applyWrites st (historyPath deviceType tankId) ws)
               = fst (applyWrites ?st2 (historyPath deviceType tankId) ws)"
    by (simp add: applyWrites_count)
  have res: "fst (syncDeviceReadingsToHistory now st tankId deviceType readings tk)
        = (if readings = [] then \<lparr>synced = 0, skipped = 0, error = None\<rparr>
           else case th of
                  None \<Rightarrow> \<lparr>synced = fst (applyWrites st (historyPath deviceType tankId) ws),
                             skipped = sk, error = None\<rparr>
                | Some msg \<Rightarrow> \<lparr>synced = 0, skipped = 0, error = Some msg\<rparr>)"
    using raw loop
    by (simp add: syncDeviceReadingsToHistory_def Let_def split: prod.splits option.splits)
  have res2: "fst (syncDeviceReadingsToHistory now ?st2 tankId deviceType readings tk)
        = (if readings = [] then \<lparr>synced = 0, skipped = 0, error = None\<rparr>
           else case th of
                  None \<Rightarrow> \<lparr>synced = fst (applyWrites ?st2 (historyPath deviceType tankId) ws),
                             skipped = sk, error = None\<rparr>
                | Some msg \<Rightarrow> \<lparr>synced = 0, skipped = 0, error = Some msg\<rparr>)"
    using raw2 loop
    by (simp add: syncDeviceReadingsToHistory_def Let_def split: prod.splits option.splits)
  have eq: "fst (syncDeviceReadingsToHistory now st tankId deviceType readings tk)
        = fst (syncDeviceReadingsToHistory now ?st2 tankId deviceType readings tk)"
    by (simp only: res res2 cnt)
  have counts: "error (fst (syncDeviceReadingsToHistory now st tankId deviceType readings tk)) = None \<longrightarrow>
          skipped (fst (syncDeviceReadingsToHistory now st tankId deviceType readings tk))
            = length (filter (\<lambda>r. num_or (timestamp r) 0 = 0) readings)
          \<and> ((\<forall>p. \<not> set_fails st p) \<longrightarrow>
               synced (fst (syncDeviceReadingsToHistory now st tankId deviceType readings tk))
                 = length (filter (\<lambda>r. num_or (timestamp r) 0 \<noteq> 0) readings))"
  proof (cases "readings = []")
    case True
    then show ?thesis unfolding res by simp
  next
    case False
    show ?thesis
    proof (cases th)
      case (Some msg)
      then show ?thesis using False unfolding res by simp
    next
      case None
      from syncLoop_no_existing_counts [OF loop [unfolded None]]
      have sk: "sk = length (filter (\<lambda>r. num_or (timestamp r) 0 = 0) ?sorted)"
        and ws: "length ws = length (filter (\<lambda>r. num_or (timestamp r) 0 \<noteq> 0) ?sorted)"
        by simp_all
      have f1: "length (filter (\<lambda>r. num_or (timestamp r) 0 = 0) ?sorted)
                  = length (filter (\<lambda>r. num_or (timestamp r) 0 = 0) readings)"
        by (simp add: filter_sort)
      have f2: "length (filter (\<lambda>r. num_or (timestamp r) 0 \<noteq> 0) ?sorted)
                  = length (filter (\<lambda>r. num_or (timestamp r) 0 \<noteq> 0) readings)"
        by (simp add: filter_sort)
      show ?thesis
        using False None sk ws f1 f2
        unfolding res by (simp add: applyWrites_count)
    qed
  qed
  show ?thesis using raw eq counts by blast
qed

theorem sync_read_failure_swallowed_witness:
  "get_fails unreadableStore
   \<and> (\<forall>p. \<not> set_fails unreadableStore p)
   \<and> getHistoryRaw unreadableStore ''t1'' ''tanks'' = []
   \<and> fst (syncDeviceReadingsToHistory (\<lambda>_. 1700000000000) unreadableStore ''t1'' ''tanks''
             [plainReading 1700000000000 (5 / 2), plainReading 0 1] None)
       = \<lparr>synced = 1, skipped = 1, error = None\<rparr>"
proof -
  have g: "get_fails unreadableStore" by (simp add: unreadableStore_def)
  have s: "\<forall>p. \<not> set_fails unreadableStore p" by (simp add: unreadableStore_def)
  have e: "fst (syncDeviceReadingsToHistory (\<lambda>_. 1700000000000) unreadableStore ''t1'' ''tanks''
             [plainReading 1700000000000 (5 / 2), plainReading 0 1] None)
       = \<lparr>synced = 1, skipped = 1, error = None\<rparr>"
    by (simp add: example_defs sync_eval js_eval cong: let_weak_cong)
  from sync_read_failure_swallowed [OF g, of "''t1''" "''tanks''" "\<lambda>_. 1700000000000"
         "[plainReading 1700000000000 (5 / 2), plainReading 0 1]" None]
  have "getHistoryRaw unreadableStore ''t1'' ''tanks'' = []" by blast
  with g s e show ?thesis by blast
qed

subsection \<open>Timestamps assigned by reading order\<close>

text \<open>
  Claim C5, as stated, fails: a reading with a non-zero, invalid timestamp that is
  already stored is skipped and assigned nothing, and the readings around it are
  persisted ten minutes apart. Here \<open>{timestamp: 2000, distance: 1}\<close> is stored first;
  the batch with raw timestamps 1000, 2000 and 3000 is synced next, with the clock fixed.
\<close>

theorem synthesized_timestamps_duplicate_counterexample:
  "fst (syncDeviceReadingsToHistory (\<lambda>_. 1700000000000)
          (snd (syncDeviceReadingsToHistory (\<lambda>_. 1700000000000) emptyStore ''t1'' ''tanks''
                  [plainReading 2000 1] None))
          ''t1'' ''tanks'' [plainReading 1000 1, plainReading 2000 1, plainReading 3000 1] None)
     = \<lparr>synced = 2, skipped = 1, error = None\<rparr>
   \<and> map (\<lambda>(k, e). (k, e ''date''))
       (nodes (snd (syncDeviceReadingsToHistory (\<lambda>_. 1700000000000)
          (snd (syncDeviceReadingsToHistory (\<lambda>_. 1700000000000) emptyStore ''t1'' ''tanks''
                  [plainReading 2000 1] None))
          ''t1'' ''tanks'' [plainReading 1000 1, plainReading 2000 1, plainReading 3000 1] None))
          (historyPath ''tanks'' ''t1''))
     = [(''2000_1'', Some (JStr ''2023-11-14T22:13:20.000Z'')),
        (''1000_1'', Some (JStr ''2023-11-14T22:03:20.000Z'')),
        (''3000_1'', Some (JStr ''2023-11-14T22:13:20.000Z''))]"
  by (simp add: example_defs sync_eval js_eval cong: let_weak_cong)

lemma syncLoop_follows_outcomes:
  assumes "\<forall>oc \<in> set (map (\<lambda>(i, r). processReading (now i) keys tk n i r) (enumerate idx rs)).
             \<forall>msg. oc \<noteq> Thrown msg"
  shows "\<exists>saves.
           syncLoop now keys tk n idx rs (sk, ws)
             = (sk + length (filter (\<lambda>oc. oc = Skipped)
                       (map (\<lambda>(i, r). processReading (now i) keys tk n i r) (enumerate idx rs))),
                ws @ saves, None)
         \<and> map (\<lambda>(k, e). Saved k e) saves
             = filter (\<lambda>oc. oc \<noteq> Skipped)
                 (map (\<lambda>(i, r). processReading (now i) keys tk n i r) (enumerate idx rs))"
  using assms
proof (induction rs arbitrary: idx sk ws)
  case Nil
  then show ?case by simp
next
  case (Cons r rs)
  let ?outs = "map (\<lambda>(i, r). processReading (now i) keys tk n i r) (enumerate (Suc idx) rs)"
  have rest: "\<forall>oc \<in> set ?outs. \<forall>msg. oc \<noteq> Thrown msg"
    using Cons.prems by simp
  show ?case
  proof (cases "processReading (now idx) keys tk n idx r")
    case Skipped
    from Cons.IH [OF rest, of "Suc sk" ws] obtain saves where
      s: "syncLoop now keys tk n (Suc idx) rs (Suc sk, ws)
            = (Suc sk + length (filter (\<lambda>oc. oc = Skipped) ?outs), ws @ saves, None)"
         "map (\<lambda>(k, e). Saved k e) saves = filter (\<lambda>oc. oc \<noteq> Skipped) ?outs"
      by blast
    show ?thesis
      using Skipped s by (intro exI [of _ saves]) simp
  next
    case (Saved k e)
    from Cons.IH [OF rest, of sk "ws @ [(k, e)]"] obtain saves where
      s: "syncLoop now keys tk n (Suc idx) rs (sk, ws @ [(k, e)])
            = (sk + length (filter (\<lambda>oc. oc = Skipped) ?outs), (ws @ [(k, e)]) @ saves, None)"
         "map (\<lambda>(k, e). Saved k e) saves = filter (\<lambda>oc. oc \<noteq> Skipped) ?outs"
      by blast
    show ?thesis
      using Saved s by (intro exI [of _ "(k, e) # saves"]) simp
  next
    case (Thrown msg)
    with Cons.prems show ?thesis by simp
  qed
qed

lemma processReading_Saved_content:
  assumes "processReading nw existingKeys tk m j r = Saved k e"
  shows "k = generateHistoryKey nw (Some (num_or (timestamp r) 0)) (distance r)
       \<and> (other r ''date'' = None \<longrightarrow>
            e ''date'' = map_option JStr
               (Date_toISOString (canonicalTimestamp nw m j (num_or (timestamp r) 0))))"
  using assms
  by (auto simp: processReading_def Let_def historyEntry_date addTankMetrics_date
           split: if_splits option.splits)

lemma undated_batch_synthesized:
  assumes "\<forall>r \<in> set readings. \<exists>raw. timestamp r = Some raw \<and> raw \<noteq> 0 \<and> raw < 946684800000
              \<and> uniqueKey raw (distance r) \<notin> set existingKeys \<and> other r ''date'' = None"
      and "\<forall>i < length readings. Date_toISOString
              (now i - (real (length readings) - 1 - real i) * 300000) \<noteq> None"
  shows "\<exists>saves.
           syncLoop now existingKeys tk (length readings) 0
               (sort_key (\<lambda>a. num_or (timestamp a) 0) readings) (0, []) = (0, saves, None)
         \<and> length saves = length readings
         \<and> (\<forall>i < length readings.
               canonicalTimestamp (now i) (length readings) i
                   (num_or (timestamp (sort_key (\<lambda>a. num_or (timestamp a) 0) readings ! i)) 0)
                 = now i - (real (length readings) - 1 - real i) * 300000
             \<and> snd (saves ! i) ''date''
                 = map_option JStr (Date_toISOString
                     (now i - (real (length readings) - 1 - real i) * 300000)))
         \<and> ((\<forall>i. now i = t0) \<longrightarrow>
               (\<forall>i. Suc i < length readings \<longrightarrow>
                  synthesizedTimestamp (now (Suc i)) (length readings) (Suc i)
                    - synthesizedTimestamp (now i) (length readings) i = 300000)
             \<and> (0 < length readings \<longrightarrow>
                  synthesizedTimestamp (now (length readings - 1)) (length readings)
                      (length readings - 1) = t0))"
proof -
  let ?sorted = "sort_key (\<lambda>a. num_or (timestamp a) 0) readings"
  let ?n = "length readings"
  have a1: "\<forall>r \<in> set ?sorted. \<exists>raw. timestamp r = Some raw \<and> raw \<noteq> 0 \<and> raw < 946684800000
              \<and> uniqueKey raw (distance r) \<notin> set existingKeys \<and> other r ''date'' = None"
    using assms(1) by simp
  have a2: "\<forall>j < length ?sorted. Date_toISOString
              (synthesizedTimestamp (now (0 + j)) ?n (0 + j)) \<noteq> None"
    using assms(2) by (simp add: synthesizedTimestamp_formula)
  from syncLoop_all_synthesized [OF a1 a2, of tk 0 "[]"] obtain saves where
    s: "syncLoop now existingKeys tk ?n 0 ?sorted (0, []) = (0, saves, None)"
       "length saves = ?n"
       "\<forall>j < ?n. snd (saves ! j) ''date''
           = map_option JStr (Date_toISOString (synthesizedTimestamp (now j) ?n j))"
    by auto
  have c: "\<forall>i < ?n. canonicalTimestamp (now i) ?n i (num_or (timestamp (?sorted ! i)) 0)
                      = now i - (real ?n - 1 - real i) * 300000"
  proof (intro allI impI)
    fix i assume "i < ?n"
    then have "i < length ?sorted" by simp
    then have "?sorted ! i \<in> set ?sorted" by (rule nth_mem)
    with a1 obtain raw where "timestamp (?sorted ! i) = Some raw" "raw \<noteq> 0" "raw < 946684800000"
      by blast
    then show "canonicalTimestamp (now i) ?n i (num_or (timestamp (?sorted ! i)) 0)
                 = now i - (real ?n - 1 - real i) * 300000"
      by (simp add: num_or_def canonicalTimestamp_invalid synthesizedTimestamp_formula)
  qed
  have f: "(\<forall>i. now i = t0) \<longrightarrow>
               (\<forall>i. Suc i < ?n \<longrightarrow>
                  synthesizedTimestamp (now (Suc i)) ?n (Suc i)
                    - synthesizedTimestamp (now i) ?n i = 300000)
             \<and> (0 < ?n \<longrightarrow> synthesizedTimestamp (now (?n - 1)) ?n (?n - 1) = t0)"
    using synthesizedTimestamp_last [of "length readings" t0]
    by (simp add: synthesizedTimestamp_step)
  show ?thesis
    using s c f by (auto simp: synthesizedTimestamp_formula)
qed

text \<open>
  Claim C5, amended. The loop handles the sorted batch position by position: when no
  iteration throws, it skips exactly the readings whose iteration skips and issues, in
  order, the writes of all the others, each iteration running with the index of its
  reading in the whole sorted batch, skipped readings included. An iteration skips
  exactly when the reading has no non-zero timestamp or its key is already stored. Any
  other reading whose raw timestamp is below 946,684,800,000 gets the canonical
  timestamp \<open>now - reverseIndex * 5 minutes\<close>, where \<open>reverseIndex = n - 1 - i\<close> is its
  reverse position in the sorted batch of \<open>n\<close> readings, and (when the reading has no
  \<open>date\<close> property of its own) the persisted \<open>date\<close> is the ISO rendering of its
  canonical timestamp. Hence in a batch whose readings all have a non-zero raw
  timestamp below 946,684,800,000, none of them already stored, nothing is skipped,
  one write is issued per reading, and with a fixed current instant the canonical
  timestamps are exactly five minutes apart in sorted order, so strictly increasing,
  and the last one is the time of the call. The statement about such a batch assumes
  that \<open>toISOString\<close> does not throw on these values.
\<close>

theorem synthesized_timestamps_follow_reading_order:
  "(raw' < 946684800000 \<longrightarrow>
      canonicalTimestamp nw m j raw' = nw - (real m - 1 - real j) * 300000)
   \<and> ((processReading nw existingKeys tk m j r' = Skipped)
        = (num_or (timestamp r') 0 = 0
           \<or> uniqueKey (num_or (timestamp r') 0) (distance r') \<in> set existingKeys))
   \<and> (processReading nw existingKeys tk m j r' = Saved k e \<longrightarrow>
         k = generateHistoryKey nw (Some (num_or (timestamp r') 0)) (distance r')
         \<and> (other r' ''date'' = None \<longrightarrow>
              e ''date'' = map_option JStr
                 (Date_toISOString (canonicalTimestamp nw m j (num_or (timestamp r') 0)))))
   \<and> ((\<forall>oc \<in> set (iterationOutcomes now existingKeys tk
                     (sort_key (\<lambda>a. num_or (timestamp a) 0) readings)). \<forall>msg. oc \<noteq> Thrown msg) \<longrightarrow>
         (\<exists>saves.
            syncLoop now existingKeys tk (length readings) 0
                (sort_key (\<lambda>a. num_or (timestamp a) 0) readings) (0, [])
              = (length (filter (\<lambda>oc. oc = Skipped) (iterationOutcomes now existingKeys tk
                     (sort_key (\<lambda>a. num_or (timestamp a) 0) readings))), saves, None)
          \<and> map (\<lambda>(k, e). Saved k e) saves = filter (\<lambda>oc. oc \<noteq> Skipped) (iterationOutcomes now existingKeys tk
                     (sort_key (\<lambda>a. num_or (timestamp a) 0) readings))))
   \<and> ((\<forall>r \<in> set readings. \<exists>raw. timestamp r = Some raw \<and> raw \<noteq> 0 \<and> raw < 946684800000
              \<and> uniqueKey raw (distance r) \<notin> set existingKeys \<and> other r ''date'' = None)
        \<and> (\<forall>i < length readings. Date_toISOString
              (now i - (real (length readings) - 1 - real i) * 300000) \<noteq> None) \<longrightarrow>
         (\<exists>saves.
           syncLoop now existingKeys tk (length readings) 0
               (sort_key (\<lambda>a. num_or (timestamp a) 0) readings) (0, []) = (0, saves, None)
         \<and> length saves = length readings
         \<and> (\<forall>i < length readings.
               canonicalTimestamp (now i) (length readings) i
                   (num_or (timestamp (sort_key (\<lambda>a. num_or (timestamp a) 0) readings ! i)) 0)
                 = now i - (real (length readings) - 1 - real i) * 300000
             \<and> snd (saves ! i) ''date''
                 = map_option JStr (Date_toISOString
                     (now i - (real (length readings) - 1 - real i) * 300000)))
         \<and> ((\<forall>i. now i = t0) \<longrightarrow>
               (\<forall>i. Suc i < length readings \<longrightarrow>
                  synthesizedTimestamp (now (Suc i)) (length readings) (Suc i)
                    - synthesizedTimestamp (now i) (length readings) i = 300000)
             \<and> (0 < length readings \<longrightarrow>
                  synthesizedTimestamp (now (length readings - 1)) (length readings)
                      (length readings - 1) = t0))))"
proof -
  have A1: "raw' < 946684800000 \<longrightarrow>
            canonicalTimestamp nw m j raw' = nw - (real m - 1 - real j) * 300000"
    by (simp add: canonicalTimestamp_invalid synthesizedTimestamp_formula)
  have A2: "(processReading nw existingKeys tk m j r' = Skipped)
              = (num_or (timestamp r') 0 = 0
                 \<or> uniqueKey (num_or (timestamp r') 0) (distance r') \<in> set existingKeys)"
    by (simp add: processReading_def Let_def split: option.splits)
  have A3: "processReading nw existingKeys tk m j r' = Saved k e \<longrightarrow>
         k = generateHistoryKey nw (Some (num_or (timestamp r') 0)) (distance r')
         \<and> (other r' ''date'' = None \<longrightarrow>
              e ''date'' = map_option JStr
                 (Date_toISOString (canonicalTimestamp nw m j (num_or (timestamp r') 0))))"
    using processReading_Saved_content by blast
  have G: "(\<forall>oc \<in> set (iterationOutcomes now existingKeys tk
                     (sort_key (\<lambda>a. num_or (timestamp a) 0) readings)). \<forall>msg. oc \<noteq> Thrown msg) \<longrightarrow>
         (\<exists>saves.
            syncLoop now existingKeys tk (length readings) 0
                (sort_key (\<lambda>a. num_or (timestamp a) 0) readings) (0, [])
              = (length (filter (\<lambda>oc. oc = Skipped) (iterationOutcomes now existingKeys tk
                     (sort_key (\<lambda>a. num_or (timestamp a) 0) readings))), saves, None)
          \<and> map (\<lambda>(k, e). Saved k e) saves = filter (\<lambda>oc. oc \<noteq> Skipped) (iterationOutcomes now existingKeys tk
                     (sort_key (\<lambda>a. num_or (timestamp a) 0) readings)))"
  proof
    assume nt: "\<forall>oc \<in> set (iterationOutcomes now existingKeys tk
                     (sort_key (\<lambda>a. num_or (timestamp a) 0) readings)). \<forall>msg. oc \<noteq> Thrown msg"
    have nt': "\<forall>oc \<in> set (map (\<lambda>(i, r). processReading (now i) existingKeys tk
                                       (length readings) i r)
                        (enumerate 0 (sort_key (\<lambda>a. num_or (timestamp a) 0) readings))).
                 \<forall>msg. oc \<noteq> Thrown msg"
      using nt by (simp add: iterationOutcomes_def)
    from syncLoop_follows_outcomes [OF nt', of 0 "[]"]
    show "\<exists>saves.
            syncLoop now existingKeys tk (length readings) 0
                (sort_key (\<lambda>a. num_or (timestamp a) 0) readings) (0, [])
              = (length (filter (\<lambda>oc. oc = Skipped) (iterationOutcomes now existingKeys tk
                     (sort_key (\<lambda>a. num_or (timestamp a) 0) readings))), saves, None)
          \<and> map (\<lambda>(k, e). Saved k e) saves = filter (\<lambda>oc. oc \<noteq> Skipped) (iterationOutcomes now existingKeys tk
                     (sort_key (\<lambda>a. num_or (timestamp a) 0) readings))"
      by (simp add: iterationOutcomes_def)
  qed
  have B: "(\<forall>r \<in> set readings. \<exists>raw. timestamp r = Some raw \<and> raw \<noteq> 0 \<and> raw < 946684800000
              \<and> uniqueKey raw (distance r) \<notin> set existingKeys \<and> other r ''date'' = None)
        \<and> (\<forall>i < length readings. Date_toISOString
              (now i - (real (length readings) - 1 - real i) * 300000) \<noteq> None) \<longrightarrow>
         (\<exists>saves.
           syncLoop now existingKeys tk (length readings) 0
               (sort_key (\<lambda>a. num_or (timestamp a) 0) readings) (0, []) = (0, saves, None)
         \<and> length saves = length readings
         \<and> (\<forall>i < length readings.
               canonicalTimestamp (now i) (length readings) i
                   (num_or (timestamp (sort_key (\<lambda>a. num_or (timestamp a) 0) readings ! i)) 0)
                 = now i - (real (length readings) - 1 - real i) * 300000
             \<and> snd (saves ! i) ''date''
                 = map_option JStr (Date_toISOString
                     (now i - (real (length readings) - 1 - real i) * 300000)))
         \<and> ((\<forall>i. now i = t0) \<longrightarrow>
               (\<forall>i. Suc i < length readings \<longrightarrow>
                  synthesizedTimestamp (now (Suc i)) (length readings) (Suc i)
                    - synthesizedTimestamp (now i) (length readings) i = 300000)
             \<and> (0 < length readings \<longrightarrow>
                  synthesizedTimestamp (now (length readings - 1)) (length readings)
                      (length readings - 1) = t0)))"
    using undated_batch_synthesized [of readings existingKeys now tk t0] by blast
  show ?thesis
    using A1 A2 A3 G B by (intro conjI)
qed

theorem synthesized_timestamps_follow_reading_order_witness:
  "(\<exists>saves.
      syncLoop (\<lambda>_. 1700000000000) [''2000_1''] None 3 0
          (sort_key (\<lambda>a. num_or (timestamp a) 0)
             [plainReading 3000 1, plainReading 1000 1, plainReading 2000 1]) (0, [])
        = (1, saves, None)
    \<and> map fst saves = [''1000_1'', ''3000_1'']
    \<and> map (\<lambda>(k, e). e ''date'') saves
        = [Some (JStr ''2023-11-14T22:03:20.000Z''), Some (JStr ''2023-11-14T22:13:20.000Z'')])
   \<and> canonicalTimestamp 1700000000000 3 2 3000 = 1700000000000
   \<and> (\<exists>saves.
         syncLoop (\<lambda>_. 1700000000000) [''3000_1''] None 2 0
             (sort_key (\<lambda>a. num_or (timestamp a) 0) [plainReading 2000 1, plainReading 1000 1])
             (0, []) = (0, saves, None)
       \<and> length saves = 2
       \<and> snd (saves ! 0) ''date'' = Some (JStr ''2023-11-14T22:08:20.000Z'')
       \<and> snd (saves ! 1) ''date'' = Some (JStr ''2023-11-14T22:13:20.000Z''))
   \<and> synthesizedTimestamp 1700000000000 2 1 - synthesizedTimestamp 1700000000000 2 0 = 300000
   \<and> synthesizedTimestamp 1700000000000 2 1 = 1700000000000"
proof -
  let ?T = "1700000000000 :: real"
  let ?keys = "[''2000_1'']"
  let ?b3 = "[plainReading 3000 1, plainReading 1000 1, plainReading 2000 1]"
  let ?s3 = "sort_key (\<lambda>a. num_or (timestamp a) 0) ?b3"
  let ?o0 = "processReading ?T ?keys None 3 0 (plainReading 1000 1)"
  let ?o1 = "processReading ?T ?keys None 3 1 (plainReading 2000 1)"
  let ?o2 = "processReading ?T ?keys None 3 2 (plainReading 3000 1)"
  have sorted3: "?s3 = [plainReading 1000 1, plainReading 2000 1, plainReading 3000 1]"
    by (simp add: plainReading_def num_or_def)
  have outs: "iterationOutcomes (\<lambda>_. ?T) ?keys None ?s3 = [?o0, ?o1, ?o2]"
    unfolding sorted3 by (simp add: iterationOutcomes_def numeral_3_eq_3 numeral_2_eq_2)
  have len3: "length ?b3 = 3" by simp
  note thm0 = synthesized_timestamps_follow_reading_order
      [of 3000 ?T 3 2 ?keys None "plainReading 1000 1" _ _ "\<lambda>_. ?T" ?b3 ?T]
  have k0: "uniqueKey 1000 (Some 1) \<notin> set ?keys" and k2: "uniqueKey 3000 (Some 1) \<notin> set ?keys"
    and k1: "uniqueKey 2000 (Some 1) \<in> set ?keys"
    by (simp_all add: uniqueKey_def js_eval cong: let_weak_cong)
  have d0: "Date_toISOString (synthesizedTimestamp ?T 3 0) = Some ''2023-11-14T22:03:20.000Z''"
    by (simp add: synthesizedTimestamp_def js_eval cong: let_weak_cong)
  have d2: "Date_toISOString (synthesizedTimestamp ?T 3 2) = Some ''2023-11-14T22:13:20.000Z''"
    by (simp add: synthesizedTimestamp_def js_eval cong: let_weak_cong)
  have g0: "generateHistoryKey ?T (Some 1000) (Some 1) = ''1000_1''"
    and g2: "generateHistoryKey ?T (Some 3000) (Some 1) = ''3000_1''"
    by (simp_all add: generateHistoryKey_def js_eval cong: let_weak_cong)
  obtain e0 where e0: "?o0 = Saved ''1000_1'' e0"
      "e0 ''date'' = Some (JStr ''2023-11-14T22:03:20.000Z'')"
    using processReading_synthesized [of "plainReading 1000 1" 1000 ?keys ?T 3 0
            "''2023-11-14T22:03:20.000Z''" None] k0 d0 g0
    by (auto simp: plainReading_def)
  obtain e2 where e2: "?o2 = Saved ''3000_1'' e2"
      "e2 ''date'' = Some (JStr ''2023-11-14T22:13:20.000Z'')"
    using processReading_synthesized [of "plainReading 3000 1" 3000 ?keys ?T 3 2
            "''2023-11-14T22:13:20.000Z''" None] k2 d2 g2
    by (auto simp: plainReading_def)
  have o1: "?o1 = Skipped"
    using k1 by (simp add: processReading_def plainReading_def num_or_def)
  have nothrow: "\<forall>oc \<in> set (iterationOutcomes (\<lambda>_. ?T) ?keys None ?s3). \<forall>msg. oc \<noteq> Thrown msg"
    unfolding outs using e0(1) e2(1) o1 by simp
  from thm0 nothrow obtain saves where
    s: "syncLoop (\<lambda>_. ?T) ?keys None (length ?b3) 0 ?s3 (0, [])
          = (length (filter (\<lambda>oc. oc = Skipped) (iterationOutcomes (\<lambda>_. ?T) ?keys None ?s3)),
             saves, None)"
       "map (\<lambda>(k, e). Saved k e) saves
          = filter (\<lambda>oc. oc \<noteq> Skipped) (iterationOutcomes (\<lambda>_. ?T) ?keys None ?s3)"
    by blast
  have cnt: "length (filter (\<lambda>oc. oc = Skipped) (iterationOutcomes (\<lambda>_. ?T) ?keys None ?s3)) = 1"
    unfolding outs using e0(1) e2(1) o1 by simp
  have "map (\<lambda>(k, e). Saved k e) saves = [Saved ''1000_1'' e0, Saved ''3000_1'' e2]"
    using s(2) unfolding outs using e0(1) e2(1) o1 by simp
  then have sv: "saves = [(''1000_1'', e0), (''3000_1'', e2)]"
    by (auto simp: map_eq_Cons_conv)
  have G3: "\<exists>saves.
      syncLoop (\<lambda>_. ?T) ?keys None 3 0 ?s3 (0, []) = (1, saves, None)
    \<and> map fst saves = [''1000_1'', ''3000_1'']
    \<and> map (\<lambda>(k, e). e ''date'') saves
        = [Some (JStr ''2023-11-14T22:03:20.000Z''), Some (JStr ''2023-11-14T22:13:20.000Z'')]"
    using s(1) [unfolded len3 cnt] sv e0(2) e2(2) by (intro exI [of _ saves]) simp
  have c: "canonicalTimestamp ?T 3 2 3000 = ?T"
    using thm0 by simp
  let ?rs = "[plainReading 2000 1, plainReading 1000 1]"
  have h1: "\<forall>r \<in> set ?rs.
       \<exists>raw. timestamp r = Some raw \<and> raw \<noteq> 0 \<and> raw < 946684800000
          \<and> uniqueKey raw (distance r) \<notin> set [''3000_1''] \<and> other r ''date'' = None"
    by (simp add: plainReading_def uniqueKey_def js_eval cong: let_weak_cong)
  have b0: "Date_toISOString (1700000000000 - (real (length ?rs) - 1 - real 0) * 300000)
              = Some ''2023-11-14T22:08:20.000Z''"
    by (simp add: js_eval cong: let_weak_cong)
  have b1: "Date_toISOString (1700000000000 - (real (length ?rs) - 1 - real 1) * 300000)
              = Some ''2023-11-14T22:13:20.000Z''"
    by (simp add: js_eval cong: let_weak_cong)
  have h2: "\<forall>i < length ?rs. Date_toISOString
              ((\<lambda>_. 1700000000000) i - (real (length ?rs) - 1 - real i) * 300000) \<noteq> None"
  proof (intro allI impI)
    fix i assume "i < length ?rs"
    then have "i = 0 \<or> i = 1" by auto
    then show "Date_toISOString
              ((\<lambda>_. 1700000000000) i - (real (length ?rs) - 1 - real i) * 300000) \<noteq> None"
      using b0 b1 by auto
  qed
  note thmB = synthesized_timestamps_follow_reading_order
      [of 3000 ?T 3 2 "[''3000_1'']" None "plainReading 1000 1" "[]" Map.empty "\<lambda>_. ?T" ?rs ?T]
  from thmB h1 h2 obtain saves2 where
    t: "syncLoop (\<lambda>_. 1700000000000) [''3000_1''] None (length ?rs) 0
             (sort_key (\<lambda>a. num_or (timestamp a) 0) ?rs) (0, []) = (0, saves2, None)"
       "length saves2 = length ?rs"
       "\<forall>i < length ?rs. snd (saves2 ! i) ''date''
           = map_option JStr (Date_toISOString
               (1700000000000 - (real (length ?rs) - 1 - real i) * 300000))"
    by blast
  have len: "length ?rs = 2" by simp
  have "snd (saves2 ! 0) ''date'' = Some (JStr ''2023-11-14T22:08:20.000Z'')"
    using t(3) [rule_format, of 0] b0 by simp
  moreover have "snd (saves2 ! 1) ''date'' = Some (JStr ''2023-11-14T22:13:20.000Z'')"
    using t(3) [rule_format, of 1] b1 by simp
  moreover have "length saves2 = 2" using t(2) by simp
  moreover have "syncLoop (\<lambda>_. 1700000000000) [''3000_1''] None 2 0
             (sort_key (\<lambda>a. num_or (timestamp a) 0) ?rs) (0, []) = (0, saves2, None)"
    using t(1) [unfolded len] .
  ultimately have B2: "\<exists>saves.
         syncLoop (\<lambda>_. 1700000000000) [''3000_1''] None 2 0
             (sort_key (\<lambda>a. num_or (timestamp a) 0) ?rs) (0, []) = (0, saves, None)
       \<and> length saves = 2
       \<and> snd (saves ! 0) ''date'' = Some (JStr ''2023-11-14T22:08:20.000Z'')
       \<and> snd (saves ! 1) ''date'' = Some (JStr ''2023-11-14T22:13:20.000Z'')"
    by blast
  have st: "synthesizedTimestamp 1700000000000 2 1
                   - synthesizedTimestamp 1700000000000 2 0 = 300000"
    and la: "synthesizedTimestamp 1700000000000 2 1 = 1700000000000"
    by (simp_all add: synthesizedTimestamp_def)
  show ?thesis
    by (intro conjI G3 c B2 st la)
qed

subsection \<open>Tanks with missing or zero dimensions\<close>

text \<open>
  Claim C8, as stated, fails: for a cylinder of diameter zero (height 5, sensor height
  5, capacity 20000) and a reading at distance 2.5 the stored \<open>currentVolume\<close> is
  10000, not 0.
\<close>

theorem zero_diameter_volume_counterexample:
  "map (\<lambda>(k, e). (k, e ''waterLevel'', e ''currentVolume''))
       (nodes (snd (syncDeviceReadingsToHistory (\<lambda>_. 1700000000000) emptyStore ''t1'' ''tanks''
                      [plainReading 1700000000000 (5 / 2)] (Some zeroDiameterTank)))
              (historyPath ''tanks'' ''t1''))
     = [(''1700000000000_2_5'', Some (JNum (5 / 2)), Some (JNum 10000))]"
  by (simp add: example_defs sync_eval js_eval cong: let_weak_cong)

text \<open>
  Claim C8, amended. Computing the derived metrics for a tank with zero or undefined
  dimensions raises nothing and divides by nothing that is zero: a cylinder without a
  non-zero diameter, a cuboid without a non-zero length and breadth, and every other
  shape get the volume \<open>(waterLevel / H) * C\<close>, computed in double arithmetic and then
  rounded to an integer, where \<open>H\<close> is the tank's height, or 10 when that is zero or
  undefined, and \<open>C\<close> its capacity, or 20000 when that is zero or undefined; and an
  iteration that builds the entry with the tank throws exactly when the same iteration
  without the tank does.
\<close>

theorem malformed_tank_uses_interpolation:
  assumes "\<not> (shape t = Some ''cylinder'' \<and> truthy_num (diameter t))"
      and "\<not> (shape t = Some ''cuboid'' \<and> truthy_num (length_m t) \<and> truthy_num (breadth t))"
  shows "tankCurrentVolume t waterLevel
           = fmul (fdiv waterLevel (num_or (height t) 10)) (num_or (capacity t) 20000)
         \<and> num_or (height t) 10 \<noteq> 0
         \<and> num_or (capacity t) 20000 \<noteq> 0
         \<and> addTankMetrics t d entry ''currentVolume''
             = Some (JNum (Math_round (fmul (fdiv (tankWaterLevel t d) (num_or (height t) 10))
                                            (num_or (capacity t) 20000))))
         \<and> ((processReading now keys (Some t) n i r = Thrown m)
              = (processReading now keys None n i r = Thrown m))"
proof -
  have v: "tankCurrentVolume t w
             = fmul (fdiv w (num_or (height t) 10)) (num_or (capacity t) 20000)" for w
    using assms by (auto simp: tankCurrentVolume_def Let_def)
  have h: "num_or (height t) 10 \<noteq> 0" and c: "num_or (capacity t) 20000 \<noteq> 0"
    by (auto simp: num_or_def split: option.splits)
  have m: "addTankMetrics t d entry ''currentVolume''
             = Some (JNum (Math_round (fmul (fdiv (tankWaterLevel t d) (num_or (height t) 10))
                                            (num_or (capacity t) 20000))))"
    by (simp add: addTankMetrics_def Let_def v)
  show ?thesis
    using v h c m tank_never_throws by blast
qed

theorem malformed_tank_uses_interpolation_witness:
  "\<not> (shape zeroDiameterTank = Some ''cylinder'' \<and> truthy_num (diameter zeroDiameterTank))
   \<and> \<not> (shape zeroDiameterTank = Some ''cuboid'' \<and> truthy_num (length_m zeroDiameterTank)
          \<and> truthy_num (breadth zeroDiameterTank))
   \<and> tankCurrentVolume zeroDiameterTank (5 / 2) = 10000
   \<and> num_or (height zeroDiameterTank) 10 = 5"
proof -
  have a: "\<not> (shape zeroDiameterTank = Some ''cylinder'' \<and> truthy_num (diameter zeroDiameterTank))"
    by (simp add: zeroDiameterTank_def truthy_num_def)
  have b: "\<not> (shape zeroDiameterTank = Some ''cuboid'' \<and> truthy_num (length_m zeroDiameterTank)
          \<and> truthy_num (breadth zeroDiameterTank))"
    by (simp add: zeroDiameterTank_def)
  have h: "num_or (height zeroDiameterTank) 10 = 5" "num_or (capacity zeroDiameterTank) 20000 = 20000"
    by (simp_all add: zeroDiameterTank_def num_or_def)
  have e: "fmul (fdiv (5 / 2) 5) 20000 = 10000"
    by (simp add: js_eval cong: let_weak_cong)
  from malformed_tank_uses_interpolation [OF a b, of "5 / 2"]
  have "tankCurrentVolume zeroDiameterTank (5 / 2) = 10000"
    using h e by simp
  with a b h show ?thesis by blast
qed

text \<open>
  The rounding of the double operations decides the stored integer. For a malformed
  tank of height and sensor height 4 and capacity 5000, and a reading at distance 0.99,
  the exact quotient is 3762.5, the doubles give 3762.4999999999995, and 3762 is stored.
\<close>

lemma interpolated_volume_double_rounding_example:
  "Math_round
     (tankCurrentVolume (zeroDiameterTank\<lparr>height := Some 4, sensorHeight := Some 4,
                                          capacity := Some 5000\<rparr>)
        (tankWaterLevel (zeroDiameterTank\<lparr>height := Some 4, sensorHeight := Some 4,
                                           capacity := Some 5000\<rparr>) (99 / 100))) = 3762
   \<and> Math_round ((4 - 99 / 100) / 4 * 5000) = 3763"
  by (simp add: example_defs sync_eval js_eval cong: let_weak_cong)

text \<open>
  The cylinder branch on a tank of diameter 2, height 5 and sensor height 5: readings at
  distance 2.5 and 2.4 get the volumes 7854 and 8168.
\<close>

lemma cylinder_volume_scenario_example:
  "Math_round (tankCurrentVolume (zeroDiameterTank\<lparr>diameter := Some 2\<rparr>)
                 (tankWaterLevel (zeroDiameterTank\<lparr>diameter := Some 2\<rparr>) (5 / 2))) = 7854
   \<and> Math_round (tankCurrentVolume (zeroDiameterTank\<lparr>diameter := Some 2\<rparr>)
                 (tankWaterLevel (zeroDiameterTank\<lparr>diameter := Some 2\<rparr>) (24 / 10))) = 8168"
  by (simp add: example_defs sync_eval js_eval cong: let_weak_cong)

section \<open>Properties of the query engine\<close>

text \<open>
  Claim C4. If every effective timestamp of the stored history is below
  946,684,800,000, \<open>getHistory\<close> with any start and end date returns the same rows, in
  the same order, as \<open>getHistory\<close> with no date arguments (for the same clock).
\<close>

theorem getHistory_skips_date_filter_without_valid_timestamps:
  assumes "\<forall>raw. fetched = Some raw \<longrightarrow>
             (\<forall>h \<in> set (normalizedHistory now raw). row_timestamp h < 946684800000)"
  shows "getHistory now parse fetched startDate endDate
           = getHistory now parse fetched None None"
proof (cases fetched)
  case None
  then show ?thesis by (simp add: getHistory_def)
next
  case (Some raw)
  with assms have "\<not> (\<exists>h \<in> set (normalizedHistory now raw). row_timestamp h > 946684800000)"
    by fastforce
  then show ?thesis
    using Some by (simp add: getHistory_def Let_def)
qed

theorem getHistory_skips_date_filter_without_valid_timestamps_witness:
  "map row_timestamp (normalizedHistory (\<lambda>_. 1700000000000) counterEntries) = [5000, 7000]
   \<and> getHistory (\<lambda>_. 1700000000000) (\<lambda>_. None) (Some counterEntries)
        (Some (DateObj (Some 1700000000000))) (Some (DateStr ''2023-11-14''))
     = getHistory (\<lambda>_. 1700000000000) (\<lambda>_. None) (Some counterEntries) None None
   \<and> map row_timestamp
        (getHistory (\<lambda>_. 1700000000000) (\<lambda>_. None) (Some counterEntries) None None)
     = [7000, 5000]"
proof -
  have n: "map row_timestamp (normalizedHistory (\<lambda>_. 1700000000000) counterEntries)
             = [5000, 7000]"
    by (simp add: counterEntries_def normalizedHistory_def normalizeEntry_def
          normalizeTimestamp_def opt_or_def truthy_num_def num_or_def year2000InMs_def
          year2000InSeconds_def upt_rec cong: let_weak_cong)
  have h0: "\<forall>h \<in> set (normalizedHistory (\<lambda>_. 1700000000000) counterEntries).
              row_timestamp h < 946684800000"
  proof
    fix h assume "h \<in> set (normalizedHistory (\<lambda>_. 1700000000000) counterEntries)"
    then have "row_timestamp h
                 \<in> set (map row_timestamp (normalizedHistory (\<lambda>_. 1700000000000) counterEntries))"
      by simp
    then show "row_timestamp h < 946684800000" unfolding n by auto
  qed
  have h: "\<forall>raw. Some counterEntries = Some raw \<longrightarrow>
       (\<forall>h \<in> set (normalizedHistory (\<lambda>_. 1700000000000) raw). row_timestamp h < 946684800000)"
    using h0 by (metis option.inject)
  have r: "map row_timestamp
        (getHistory (\<lambda>_. 1700000000000) (\<lambda>_. None) (Some counterEntries) None None)
     = [7000, 5000]"
    by (simp add: getHistory_def sort_by_def compareRows_def counterEntries_def
          normalizedHistory_def normalizeEntry_def normalizeTimestamp_def opt_or_def
          truthy_num_def num_or_def year2000InMs_def year2000InSeconds_def upt_rec
          cong: let_weak_cong)
  have e: "getHistory (\<lambda>_. 1700000000000) (\<lambda>_. None) (Some counterEntries)
        (Some (DateObj (Some 1700000000000))) (Some (DateStr ''2023-11-14''))
     = getHistory (\<lambda>_. 1700000000000) (\<lambda>_. None) (Some counterEntries) None None"
    by (rule getHistory_skips_date_filter_without_valid_timestamps [OF h])
  show ?thesis
    by (intro conjI n e r)
qed

section \<open>Properties of the CSV export\<close>

text \<open>
  Claim C9 says that in both schemas a string field is wrapped in double quotes with
  each embedded double quote doubled. The code evaluated: in the tanks schema the
  valve-states cell for the valve \<open>{name: 'a"b', state: 'open'}\<close> is \<open>"a"b:open"\<close>,
  the embedded quote is not doubled; the changes cell of the valve schema doubles it.
\<close>

theorem tanks_valve_states_cell_example:
  "tanksValveStatesCell (Some [quotedValve])
     = [CHR 0x22, CHR ''a'', CHR 0x22, CHR ''b'', CHR '':'', CHR ''o'', CHR ''p'', CHR ''e'', CHR ''n'', CHR 0x22]
   \<and> valveChangesCell (Some [CHR ''a'', CHR 0x22, CHR ''b''])
     = [CHR 0x22, CHR ''a'', CHR 0x22, CHR 0x22, CHR ''b'', CHR 0x22]"
  by (simp add: example_defs tanksValveStatesCell_def valveStatesStr_def valveChangesCell_def double_quotes_def)

end
